theory Spec2Isabelle
  imports Main "HOL-Library.AList"
begin

section \<open>JavaScript values\<close>

text \<open>
  The agent of \<^verbatim>\<open>src/aiAgent.js\<close> moves JSON-like data around: tasks, plans,
  steps, tool parameters and tool results. They are modelled by one datatype of
  JavaScript values. A number is given by the text \<^verbatim>\<open>Number.prototype.toString\<close>
  prints for it (\<^verbatim>\<open>7\<close>, \<^verbatim>\<open>1.5\<close>, \<^verbatim>\<open>1e+21\<close>): the orchestration
  code does no arithmetic on numbers, it only prints them and tests them for
  truthiness. An object is the list of its own enumerable properties, in the order
  JavaScript lists them. \<open>JError name message\<close> is an \<^verbatim>\<open>Error\<close> object of the
  class \<open>name\<close>. There are no functions and no cyclic values among the data.

  A call returns a value (\<open>Inr\<close>) or throws one (\<open>Inl\<close>). JavaScript throws any
  value, not only \<^verbatim>\<open>Error\<close> objects, and a rejected promise may carry
  \<^verbatim>\<open>undefined\<close>. A call that never settles is \<open>None\<close>.
\<close>

datatype jsval =
    JUndefined
  | JNull
  | JBool bool
  | JNum string
  | JStr string
  | JArr "jsval list"
  | JObj "(string \<times> jsval) list"
  | JError string string

type_synonym outcome = "jsval + jsval"

text \<open>Truthiness, as \<^verbatim>\<open>!x\<close> and \<^verbatim>\<open>x && y\<close> read it.\<close>

fun truthy :: "jsval \<Rightarrow> bool" where
  "truthy JUndefined = False"
| "truthy JNull = False"
| "truthy (JBool b) = b"
| "truthy (JNum n) = (n \<noteq> ''0'' \<and> n \<noteq> ''NaN'')"
| "truthy (JStr s) = (s \<noteq> [])"
| "truthy (JArr xs) = True"
| "truthy (JObj kvs) = True"
| "truthy (JError n m) = True"

text \<open>The decimal digits of an array index.\<close>

fun dec_nat :: "nat \<Rightarrow> string" where
  "dec_nat n =
     (if n < 10 then [''0123456789'' ! n]
      else dec_nat (n div 10) @ [''0123456789'' ! (n mod 10)])"

declare dec_nat.simps [simp del]

fun join_comma :: "string list \<Rightarrow> string" where
  "join_comma [] = []"
| "join_comma [x] = x"
| "join_comma (x # y # ys) = x @ '','' @ join_comma (y # ys)"

text \<open>
  \<^verbatim>\<open>ToString\<close>, which turns the value in \<^verbatim>\<open>results[step.id]\<close> into a
  property key and prints a value inside a template literal.
\<close>

fun to_key :: "jsval \<Rightarrow> string" where
  "to_key JUndefined = ''undefined''"
| "to_key JNull = ''null''"
| "to_key (JBool b) = (if b then ''true'' else ''false'')"
| "to_key (JNum n) = n"
| "to_key (JStr s) = s"
| "to_key (JArr xs) =
     join_comma (map (\<lambda>x. if x = JUndefined \<or> x = JNull then [] else to_key x) xs)"
| "to_key (JObj kvs) = ''[object Object]''"
| "to_key (JError n m) = (if m = [] then n else if n = [] then m else n @ '': '' @ m)"

text \<open>
  A property read \<^verbatim>\<open>v.k\<close>. Reading a property of \<^verbatim>\<open>undefined\<close> or
  \<^verbatim>\<open>null\<close> throws a \<^verbatim>\<open>TypeError\<close>; a missing property is
  \<^verbatim>\<open>undefined\<close>. The keys the source reads (\<^verbatim>\<open>tool\<close>, \<^verbatim>\<open>id\<close>,
  \<^verbatim>\<open>steps\<close>, \<^verbatim>\<open>success\<close>, \<^verbatim>\<open>message\<close>, ...) exist on no string,
  number, boolean or array; of them an \<^verbatim>\<open>Error\<close> object has
  \<^verbatim>\<open>message\<close>.
\<close>

definition get_prop :: "jsval \<Rightarrow> string \<Rightarrow> outcome" where
  "get_prop v k =
     (case v of
        JUndefined \<Rightarrow>
          Inl (JError ''TypeError'' (''Cannot read properties of undefined (reading '' @ k @ '')''))
      | JNull \<Rightarrow>
          Inl (JError ''TypeError'' (''Cannot read properties of null (reading '' @ k @ '')''))
      | JObj kvs \<Rightarrow> Inr (case map_of kvs k of None \<Rightarrow> JUndefined | Some x \<Rightarrow> x)
      | JError n m \<Rightarrow>
          Inr (if k = ''message'' then JStr m else if k = ''name'' then JStr n else JUndefined)
      | _ \<Rightarrow> Inr JUndefined)"

subsection \<open>Own properties and their order\<close>

text \<open>
  JavaScript lists the own properties of an object with the array indices first, in
  ascending order, and the other keys after them, in the order of their creation. An
  array index is the canonical decimal text of a number below \<open>2\<^sup>3\<^sup>2 - 1\<close>.
\<close>

definition digit_value :: "char \<Rightarrow> nat option" where
  "digit_value c =
     map_of [(CHR ''0'', 0), (CHR ''1'', 1), (CHR ''2'', 2), (CHR ''3'', 3), (CHR ''4'', 4),
             (CHR ''5'', 5), (CHR ''6'', 6), (CHR ''7'', 7), (CHR ''8'', 8), (CHR ''9'', 9)] c"

fun digits_value :: "string \<Rightarrow> nat \<Rightarrow> nat option" where
  "digits_value [] n = Some n"
| "digits_value (c # cs) n =
     (case digit_value c of
        None \<Rightarrow> None
      | Some d \<Rightarrow> digits_value cs (10 * n + d))"

definition array_index :: "string \<Rightarrow> nat option" where
  "array_index k =
     (case digits_value k 0 of
        None \<Rightarrow> None
      | Some n \<Rightarrow> if k \<noteq> [] \<and> dec_nat n = k \<and> n < 4294967295 then Some n else None)"

fun insert_index :: "nat \<Rightarrow> string \<Rightarrow> jsval \<Rightarrow> (string \<times> jsval) list \<Rightarrow> (string \<times> jsval) list" where
  "insert_index n k v [] = [(k, v)]"
| "insert_index n k v ((k', v') # kvs) =
     (case array_index k' of
        None \<Rightarrow> (k, v) # (k', v') # kvs
      | Some m \<Rightarrow>
          if m < n then (k', v') # insert_index n k v kvs
          else (k, v) # (k', v') # kvs)"

text \<open>
  Defining the own property \<open>k\<close> of an object: an existing property keeps its place, a
  new one takes the place its key gives it.
\<close>

definition obj_put :: "string \<Rightarrow> jsval \<Rightarrow> (string \<times> jsval) list \<Rightarrow> (string \<times> jsval) list" where
  "obj_put k v kvs =
     (if map_of kvs k \<noteq> None then AList.update k v kvs
      else
        (case array_index k of
           None \<Rightarrow> kvs @ [(k, v)]
         | Some n \<Rightarrow> insert_index n k v kvs))"

text \<open>The own enumerable properties an object spread \<^verbatim>\<open>{...v}\<close> copies.\<close>

fun own_props :: "jsval \<Rightarrow> (string \<times> jsval) list" where
  "own_props (JObj kvs) = kvs"
| "own_props (JArr xs) = zip (map dec_nat [0..<length xs]) xs"
| "own_props (JStr s) = zip (map dec_nat [0..<length s]) (map (\<lambda>c. JStr [c]) s)"
| "own_props v = []"

text \<open>
  The object literal \<^verbatim>\<open>{...v, k: x}\<close>: a new object that receives the properties of
  \<open>v\<close> one by one and then \<open>k\<close>.
\<close>

definition spread_with :: "jsval \<Rightarrow> string \<Rightarrow> jsval \<Rightarrow> jsval" where
  "spread_with v k x = JObj (obj_put k x (fold (\<lambda>(k', v'). obj_put k' v') (own_props v) []))"

subsection \<open>Assignment to a property of a plain object\<close>

text \<open>
  \<^verbatim>\<open>results\<close> in \<^verbatim>\<open>executePlan\<close> starts as \<^verbatim>\<open>{}\<close>, an object whose
  prototype is \<^verbatim>\<open>Object.prototype\<close>, and line 320 assigns to
  \<^verbatim>\<open>results[step.id]\<close>. An assignment looks the key up along the prototype
  chain first. Every key but one finds a writable data property or nothing, and the
  assignment creates or updates the own property. The key \<^verbatim>\<open>__proto__\<close> finds
  the accessor of \<^verbatim>\<open>Object.prototype\<close>, whose setter replaces the prototype of
  the object when the value is an object or \<^verbatim>\<open>null\<close> and does nothing
  otherwise: no own property is created. The accessor is out of reach once the
  prototype is \<^verbatim>\<open>null\<close>, or an object with an own property of that name.
\<close>

datatype prototype = ObjectPrototype | NullPrototype | ValuePrototype jsval

record js_object =
  own :: "(string \<times> jsval) list"
  proto :: prototype

definition empty_object :: js_object where
  "empty_object = \<lparr>own = [], proto = ObjectPrototype\<rparr>"

definition reaches_proto_accessor :: "prototype \<Rightarrow> bool" where
  "reaches_proto_accessor p =
     (case p of
        ObjectPrototype \<Rightarrow> True
      | NullPrototype \<Rightarrow> False
      | ValuePrototype v \<Rightarrow>
          (case v of JObj kvs \<Rightarrow> map_of kvs ''__proto__'' = None | _ \<Rightarrow> True))"

definition assign :: "string \<Rightarrow> jsval \<Rightarrow> js_object \<Rightarrow> js_object" where
  "assign k v obj =
     (if k = ''__proto__'' \<and> map_of (own obj) k = None \<and> reaches_proto_accessor (proto obj)
      then
        (case v of
           JNull \<Rightarrow> obj\<lparr>proto := NullPrototype\<rparr>
         | JObj kvs \<Rightarrow> obj\<lparr>proto := ValuePrototype v\<rparr>
         | JArr xs \<Rightarrow> obj\<lparr>proto := ValuePrototype v\<rparr>
         | JError n m \<Rightarrow> obj\<lparr>proto := ValuePrototype v\<rparr>
         | _ \<Rightarrow> obj)
      else obj\<lparr>own := obj_put k v (own obj)\<rparr>)"

subsection \<open>Catching\<close>

text \<open>
  The value \<^verbatim>\<open>{ success: false, error: m }\<close>, and the block
  \<^verbatim>\<open>catch (error) { return { success: false, error: error.message } }\<close> of
  \<^verbatim>\<open>executeTool\<close> and of the storage handler: reading \<^verbatim>\<open>error.message\<close>
  throws in its turn when the caught value is \<^verbatim>\<open>undefined\<close> or
  \<^verbatim>\<open>null\<close>.
\<close>

definition soft_failure :: "jsval \<Rightarrow> jsval" where
  "soft_failure m = JObj [(''success'', JBool False), (''error'', m)]"

definition catch_soft :: "jsval \<Rightarrow> outcome" where
  "catch_soft error =
     (case get_prop error ''message'' of
        Inl typeError \<Rightarrow> Inl typeError
      | Inr m \<Rightarrow> Inr (soft_failure m))"

section \<open>Tools, tasks and the agent\<close>

text \<open>
  A tool handler is a closure. The built-in handlers of the storage and the mint tool
  are kept as constructors, because \<^verbatim>\<open>nftCreate\<close> calls back into
  \<^verbatim>\<open>this.executeTool\<close>; every other handler (a caller's, a stub, and the
  built-in \<^verbatim>\<open>contractInteract\<close> and \<^verbatim>\<open>tokenSwap\<close>, whose bodies are
  provider calls and floating point) is \<open>Custom f\<close>, with \<open>f\<close> giving what the call
  returns or throws for its parameters.
\<close>

datatype handler = Custom "jsval \<Rightarrow> outcome" | IpfsStore | NftCreate

text \<open>
  A tool definition as \<^verbatim>\<open>registerTool\<close> receives it. An absent
  \<^verbatim>\<open>name\<close> is the empty string (both are falsy), an absent \<^verbatim>\<open>handler\<close>
  is \<open>None\<close>.
\<close>

record tool =
  name :: string
  description :: string
  handler :: "handler option"

text \<open>\<^verbatim>\<open>this.tools\<close>, a \<^verbatim>\<open>Map\<close>: keys in insertion order.\<close>

type_synonym registry = "(string \<times> tool) list"

record task =
  objective :: jsval
  walletAddress :: jsval

datatype prompt =
    PlanningPrompt jsval "string list" "string list"
  | ReasoningPrompt jsval jsval
  | ReportPrompt jsval jsval

record llm_request =
  model :: string
  prompt :: prompt
  json_object :: bool

datatype event =
    TaskStart string jsval
  | StepStart jsval
  | StepComplete jsval jsval
  | StepFailed jsval jsval
  | TaskComplete string jsval
  | TaskFailed string jsval

text \<open>
  What an observer of the agent sees, in order: the events it emits and the requests
  it sends to the reasoning service.
\<close>

datatype effect = Emitted event | LlmCall llm_request

record agent =
  status :: string
  tools :: registry
  networks :: "string list"
  reasoning_model :: string
  execution_model :: string
  trace :: "effect list"

text \<open>
  The collaborators outside the source file, taken as parameters:
  \<^item> \<open>chat\<close>: \<^verbatim>\<open>this.openai.chat.completions.create\<close>; for the effects so far and
    a request it throws or returns the \<^verbatim>\<open>message.content\<close> of each choice;
  \<^item> \<open>json_parse\<close>: \<^verbatim>\<open>JSON.parse\<close>, which throws a \<^verbatim>\<open>SyntaxError\<close> on
    malformed text;
  \<^item> \<open>ipfs_add\<close>: \<^verbatim>\<open>this.ipfs.add\<close> on the serialised content, returning the
    \<^verbatim>\<open>path\<close> of the stored object;
  \<^item> \<open>random_tokenId\<close>, \<open>random_txHash\<close>: the values the mint tool derives from
    \<^verbatim>\<open>Math.random()\<close>, an integer below a million and a text;
  \<^item> \<open>contractInteract\<close>, \<open>tokenSwap\<close>: the handlers of the two other built-in tools.
\<close>

record env =
  chat :: "effect list \<Rightarrow> llm_request \<Rightarrow> jsval + jsval list"
  json_parse :: "jsval \<Rightarrow> outcome"
  ipfs_add :: "jsval \<Rightarrow> jsval + string"
  random_tokenId :: nat
  random_txHash :: string
  contractInteract :: "jsval \<Rightarrow> outcome"
  tokenSwap :: "jsval \<Rightarrow> outcome"

section \<open>The tool registry\<close>

text \<open>
  \<^verbatim>\<open>registerTool\<close> (lines 184-191): throws unless name and handler are both
  truthy, otherwise \<^verbatim>\<open>this.tools.set(name, toolDefinition)\<close>.
\<close>

definition registerTool :: "tool \<Rightarrow> agent \<Rightarrow> jsval + agent" where
  "registerTool toolDefinition a =
     (if name toolDefinition = [] \<or> handler toolDefinition = None
      then Inl (JError ''Error'' ''Tool must have a name and handler function'')
      else Inr (a\<lparr>tools := AList.update (name toolDefinition) toolDefinition (tools a)\<rparr>))"

text \<open>\<^verbatim>\<open>this.tools.get(name)\<close> and \<^verbatim>\<open>this.tools.has(v)\<close>.\<close>

definition tools_get :: "registry \<Rightarrow> string \<Rightarrow> tool option" where
  "tools_get ts toolName = map_of ts toolName"

definition tools_has :: "registry \<Rightarrow> jsval \<Rightarrow> bool" where
  "tools_has ts v = (case v of JStr toolName \<Rightarrow> map_of ts toolName \<noteq> None | _ \<Rightarrow> False)"

section \<open>The built-in storage and mint handlers\<close>

text \<open>
  The \<^verbatim>\<open>ipfsStore\<close> handler (lines 134-149). Destructuring the parameters and
  \<^verbatim>\<open>Buffer.from(JSON.stringify(content))\<close> stand before the \<^verbatim>\<open>try\<close>, so
  they throw out of the handler; a failure of \<^verbatim>\<open>this.ipfs.add\<close> is caught and
  returned as a soft failure.
\<close>

definition ipfsStore_handler :: "env \<Rightarrow> jsval \<Rightarrow> outcome" where
  "ipfsStore_handler e params =
     (case get_prop params ''content'' of
        Inl err \<Rightarrow> Inl err
      | Inr content \<Rightarrow>
          if content = JUndefined
          then Inl (JError ''TypeError''
                     ''The first argument must be of type string or an instance of Buffer'')
          else
            (case ipfs_add e content of
               Inr path \<Rightarrow>
                 Inr (JObj [(''success'', JBool True),
                            (''cid'', JStr path),
                            (''url'', JStr (''ipfs://'' @ path)),
                            (''gatewayUrl'', JStr (''https://ipfs.io/ipfs/'' @ path))])
             | Inl error \<Rightarrow> catch_soft error))"

text \<open>
  The \<^verbatim>\<open>nftCreate\<close> handler (lines 156-176); \<open>exec\<close> is
  \<^verbatim>\<open>this.executeTool\<close>. It has no \<^verbatim>\<open>try\<close>: what the storage call throws,
  and a storage result that is \<^verbatim>\<open>undefined\<close> or \<^verbatim>\<open>null\<close>, throw out of
  it.
\<close>

definition nftCreate_handler ::
  "env \<Rightarrow> (string \<Rightarrow> jsval \<Rightarrow> outcome option) \<Rightarrow> jsval \<Rightarrow> outcome option" where
  "nftCreate_handler e exec params =
     (case get_prop params ''metadata'' of
        Inl err \<Rightarrow> Some (Inl err)
      | Inr metadata \<Rightarrow>
          Option.bind
            (exec ''ipfsStore'' (JObj [(''content'', metadata), (''type'', JStr ''metadata'')]))
            (\<lambda>r. Some
              (case r of
                 Inl err \<Rightarrow> Inl err
               | Inr ipfsResult \<Rightarrow>
                   (case get_prop ipfsResult ''success'' of
                      Inl err \<Rightarrow> Inl err
                    | Inr ok \<Rightarrow>
                        if \<not> truthy ok then Inr ipfsResult
                        else
                          (case get_prop ipfsResult ''url'' of
                             Inl err \<Rightarrow> Inl err
                           | Inr url \<Rightarrow>
                               Inr (JObj [(''success'', JBool True),
                                          (''tokenId'', JNum (dec_nat (random_tokenId e))),
                                          (''metadataUri'', url),
                                          (''txHash'', JStr (random_txHash e))]))))))"

text \<open>Calling \<^verbatim>\<open>tool.handler(parameters)\<close>.\<close>

definition callHandler ::
  "env \<Rightarrow> (string \<Rightarrow> jsval \<Rightarrow> outcome option) \<Rightarrow> handler option \<Rightarrow> jsval \<Rightarrow> outcome option" where
  "callHandler e exec h parameters =
     (case h of
        None \<Rightarrow> Some (Inl (JError ''TypeError'' ''tool.handler is not a function''))
      | Some (Custom f) \<Rightarrow> Some (f parameters)
      | Some IpfsStore \<Rightarrow> Some (ipfsStore_handler e parameters)
      | Some NftCreate \<Rightarrow> nftCreate_handler e exec parameters)"

lemma nftCreate_handler_mono:
  assumes "\<And>n p. mono_option (\<lambda>f. G f n p)"
  shows "mono_option (\<lambda>f. nftCreate_handler e (\<lambda>n p. G f n p) parameters)"
proof (cases "get_prop parameters ''metadata''")
  case (Inl err)
  then show ?thesis
    by (simp add: nftCreate_handler_def option.const_mono)
next
  case (Inr metadata)
  then show ?thesis
    by (simp add: nftCreate_handler_def) (intro bind_mono assms option.const_mono)
qed

lemma callHandler_mono [partial_function_mono]:
  assumes "\<And>n p. mono_option (\<lambda>f. G f n p)"
  shows "mono_option (\<lambda>f. callHandler e (\<lambda>n p. G f n p) h parameters)"
proof (cases h)
  case None
  then show ?thesis
    by (simp add: callHandler_def option.const_mono)
next
  case (Some hh)
  then show ?thesis
    using nftCreate_handler_mono [of G e parameters, OF assms]
    by (cases hh) (simp_all add: callHandler_def option.const_mono)
qed

section \<open>Executing a tool\<close>

text \<open>
  \<^verbatim>\<open>executeTool\<close> (lines 213-224). An unregistered name throws; what the handler
  throws is caught, and the \<^verbatim>\<open>catch\<close> block returns
  \<^verbatim>\<open>{success: false, error: error.message}\<close>. The mint handler re-enters
  \<^verbatim>\<open>executeTool\<close>, and a registry that binds \<^verbatim>\<open>ipfsStore\<close> to the mint
  handler itself never returns: the result is an \<open>option\<close>, with \<open>None\<close> for that.
\<close>

partial_function (option) executeTool ::
  "env \<Rightarrow> registry \<Rightarrow> string \<Rightarrow> jsval \<Rightarrow> outcome option" where
  "executeTool e ts toolName parameters =
     (case tools_get ts toolName of
        None \<Rightarrow> Some (Inl (JError ''Error'' (''Tool not found: '' @ toolName)))
      | Some tool \<Rightarrow>
          Option.bind (callHandler e (executeTool e ts) (handler tool) parameters)
            (\<lambda>r. Some
              (case r of
                 Inl error \<Rightarrow> catch_soft error
               | Inr v \<Rightarrow> Inr v)))"

declare executeTool.simps [code]

section \<open>Events and the reasoning service\<close>

text \<open>
  \<^verbatim>\<open>this.emit(...)\<close> appends to the trace; observers are notified and do not act
  on the agent. \<open>send\<close> is one \<^verbatim>\<open>await this.openai.chat.completions.create\<close>:
  the request is recorded, and the service answers for the effects so far.
  \<open>first_content\<close> is \<^verbatim>\<open>response.choices[0].message.content\<close>, a
  \<^verbatim>\<open>TypeError\<close> when there is no choice.
\<close>

definition emit :: "event \<Rightarrow> agent \<Rightarrow> agent" where
  "emit ev a = a\<lparr>trace := trace a @ [Emitted ev]\<rparr>"

definition send :: "env \<Rightarrow> llm_request \<Rightarrow> agent \<Rightarrow> (jsval + jsval list) \<times> agent" where
  "send e req a = (chat e (trace a) req, a\<lparr>trace := trace a @ [LlmCall req]\<rparr>)"

definition first_content :: "jsval list \<Rightarrow> outcome" where
  "first_content choices =
     (case choices of
        [] \<Rightarrow> Inl (JError ''TypeError'' ''Cannot read properties of undefined (reading message)'')
      | content # _ \<Rightarrow> Inr content)"

section \<open>Planning\<close>

text \<open>
  \<^verbatim>\<open>createPlan\<close> (lines 264-292). The request to the service stands before the
  \<^verbatim>\<open>try\<close>: its failure is thrown as it is. Inside the \<^verbatim>\<open>try\<close> are the
  read of the content, \<^verbatim>\<open>JSON.parse\<close> and the read of \<^verbatim>\<open>.steps\<close>; what
  they throw is rethrown as \<^verbatim>\<open>Error(`Failed to create plan: ${error.message}`)\<close>.
\<close>

definition createPlan :: "env \<Rightarrow> task \<Rightarrow> agent \<Rightarrow> outcome \<times> agent" where
  "createPlan e tk a =
     (case send e \<lparr>model = reasoning_model a,
                   prompt = PlanningPrompt (objective tk) (map fst (tools a)) (networks a),
                   json_object = True\<rparr> a of
        (Inl err, a') \<Rightarrow> (Inl err, a')
      | (Inr choices, a') \<Rightarrow>
          (case (case first_content choices of
                   Inl err \<Rightarrow> Inl err
                 | Inr planContent \<Rightarrow>
                     (case json_parse e planContent of
                        Inl err \<Rightarrow> Inl err
                      | Inr parsed \<Rightarrow> get_prop parsed ''steps'')) of
             Inl error \<Rightarrow>
               (case get_prop error ''message'' of
                  Inl typeError \<Rightarrow> (Inl typeError, a')
                | Inr m \<Rightarrow>
                    (Inl (JError ''Error'' (''Failed to create plan: '' @ to_key m)), a'))
           | Inr steps \<Rightarrow> (Inr steps, a')))"

section \<open>Executing a plan\<close>

text \<open>
  \<^verbatim>\<open>executeReasoning\<close> (lines 338-357): the prompt carries the step's description
  and \<^verbatim>\<open>JSON.stringify(previousResults)\<close>, which prints the own properties of
  the results object; the prompt is kept here as these values.
\<close>

definition executeReasoning ::
  "env \<Rightarrow> jsval \<Rightarrow> js_object \<Rightarrow> agent \<Rightarrow> outcome \<times> agent" where
  "executeReasoning e step previousResults a =
     (case get_prop step ''description'' of
        Inl err \<Rightarrow> (Inl err, a)
      | Inr d \<Rightarrow>
          (case send e \<lparr>model = execution_model a,
                        prompt = ReasoningPrompt d (JObj (own previousResults)),
                        json_object = False\<rparr> a of
             (Inl err, a') \<Rightarrow> (Inl err, a')
           | (Inr choices, a') \<Rightarrow>
               (case first_content choices of
                  Inl err \<Rightarrow> (Inl err, a')
                | Inr content \<Rightarrow>
                    (Inr (JObj [(''success'', JBool True), (''reasoning'', content)]), a'))))"

text \<open>
  The computation of \<^verbatim>\<open>stepResult\<close> inside the loop of \<^verbatim>\<open>executePlan\<close>
  (lines 307-318): the tool when \<^verbatim>\<open>step.tool && this.tools.has(step.tool)\<close>,
  with \<^verbatim>\<open>{...step.parameters, walletAddress: task.walletAddress}\<close>, the reasoning
  fallback otherwise.
\<close>

definition executeStep ::
  "env \<Rightarrow> task \<Rightarrow> js_object \<Rightarrow> jsval \<Rightarrow> agent \<Rightarrow> (outcome \<times> agent) option" where
  "executeStep e tk results step a =
     (case get_prop step ''tool'' of
        Inl err \<Rightarrow> Some (Inl err, a)
      | Inr t \<Rightarrow>
          if truthy t \<and> tools_has (tools a) t
          then
            (case get_prop step ''parameters'' of
               Inl err \<Rightarrow> Some (Inl err, a)
             | Inr ps \<Rightarrow>
                 map_option (\<lambda>r. (r, a))
                   (executeTool e (tools a) (to_key t)
                      (spread_with ps ''walletAddress'' (walletAddress tk))))
          else Some (executeReasoning e step results a))"

text \<open>
  The \<^verbatim>\<open>catch\<close> block of the loop (lines 322-325):
  \<^verbatim>\<open>this.emit('stepFailed', { step, error: error.message }); throw error\<close>. When
  the caught value is \<^verbatim>\<open>undefined\<close> or \<^verbatim>\<open>null\<close>, reading its message
  throws before the event is emitted.
\<close>

definition step_failed :: "jsval \<Rightarrow> jsval \<Rightarrow> agent \<Rightarrow> (jsval + js_object) \<times> agent" where
  "step_failed step error a =
     (case get_prop error ''message'' of
        Inl typeError \<Rightarrow> (Inl typeError, a)
      | Inr m \<Rightarrow> (Inl error, emit (StepFailed step m) a))"

text \<open>
  The loop of \<^verbatim>\<open>executePlan\<close> (lines 303-326) over the remaining steps, with the
  \<^verbatim>\<open>results\<close> object so far: \<^verbatim>\<open>stepStart\<close>, the step,
  \<^verbatim>\<open>results[step.id] = stepResult\<close>, \<^verbatim>\<open>stepComplete\<close>.
\<close>

fun executeSteps ::
  "env \<Rightarrow> task \<Rightarrow> js_object \<Rightarrow> jsval list \<Rightarrow> agent
    \<Rightarrow> ((jsval + js_object) \<times> agent) option" where
  "executeSteps e tk results [] a = Some (Inr results, a)"
| "executeSteps e tk results (step # rest) a =
     (case executeStep e tk results step (emit (StepStart step) a) of
        None \<Rightarrow> None
      | Some (Inl error, a') \<Rightarrow> Some (step_failed step error a')
      | Some (Inr stepResult, a') \<Rightarrow>
          (case get_prop step ''id'' of
             Inl error \<Rightarrow> Some (step_failed step error a')
           | Inr i \<Rightarrow>
               executeSteps e tk (assign (to_key i) stepResult results) rest
                 (emit (StepComplete step stepResult) a')))"

text \<open>
  What \<^verbatim>\<open>for (const step of plan)\<close> iterates: the elements of an array, the
  characters of a string; any other value is not iterable.
\<close>

definition iterate :: "jsval \<Rightarrow> jsval + jsval list" where
  "iterate plan =
     (case plan of
        JArr steps \<Rightarrow> Inr steps
      | JStr s \<Rightarrow> Inr (map (\<lambda>c. JStr [c]) s)
      | _ \<Rightarrow> Inl (JError ''TypeError'' ''plan is not iterable''))"

text \<open>
  \<^verbatim>\<open>createFinalReport\<close> (lines 365-386). The report holds the results object
  itself; it is given by its own properties, which is what
  \<^verbatim>\<open>JSON.stringify\<close> and \<^verbatim>\<open>Object.keys\<close> show of it.
\<close>

definition createFinalReport ::
  "env \<Rightarrow> task \<Rightarrow> js_object \<Rightarrow> agent \<Rightarrow> outcome \<times> agent" where
  "createFinalReport e tk results a =
     (case send e \<lparr>model = execution_model a,
                   prompt = ReportPrompt (objective tk) (JObj (own results)),
                   json_object = False\<rparr> a of
        (Inl err, a') \<Rightarrow> (Inl err, a')
      | (Inr choices, a') \<Rightarrow>
          (case first_content choices of
             Inl err \<Rightarrow> (Inl err, a')
           | Inr content \<Rightarrow>
               (Inr (JObj [(''success'', JBool True),
                           (''objective'', objective tk),
                           (''summary'', content),
                           (''results'', JObj (own results))]), a')))"

text \<open>\<^verbatim>\<open>executePlan\<close> (lines 300-330).\<close>

definition executePlan :: "env \<Rightarrow> jsval \<Rightarrow> task \<Rightarrow> agent \<Rightarrow> (outcome \<times> agent) option" where
  "executePlan e plan tk a =
     (case iterate plan of
        Inl err \<Rightarrow> Some (Inl err, a)
      | Inr steps \<Rightarrow>
          (case executeSteps e tk empty_object steps a of
             None \<Rightarrow> None
           | Some (Inl err, a') \<Rightarrow> Some (Inl err, a')
           | Some (Inr results, a') \<Rightarrow> Some (createFinalReport e tk results a')))"

section \<open>Running a task\<close>

text \<open>
  The \<^verbatim>\<open>catch\<close> block of \<^verbatim>\<open>run\<close> (lines 252-256): the status is reset
  first, then \<^verbatim>\<open>taskFailed\<close> is emitted with \<^verbatim>\<open>error.message\<close>, then the
  error is rethrown.
\<close>

definition task_failed :: "string \<Rightarrow> jsval \<Rightarrow> agent \<Rightarrow> outcome \<times> agent" where
  "task_failed taskId error a =
     (case get_prop error ''message'' of
        Inl typeError \<Rightarrow> (Inl typeError, a\<lparr>status := ''idle''\<rparr>)
      | Inr m \<Rightarrow> (Inl error, emit (TaskFailed taskId m) (a\<lparr>status := ''idle''\<rparr>)))"

text \<open>
  \<^verbatim>\<open>run\<close> (lines 231-257); \<open>taskId\<close> is the value of \<^verbatim>\<open>uuidv4()\<close>. The
  task is an object, as the source documents its parameter.
\<close>

definition run :: "env \<Rightarrow> string \<Rightarrow> task \<Rightarrow> agent \<Rightarrow> (outcome \<times> agent) option" where
  "run e taskId tk a =
     (if status a \<noteq> ''idle''
      then Some (Inl (JError ''Error'' ''Agent is already running a task''), a)
      else
        (case createPlan e tk (emit (TaskStart taskId (objective tk)) (a\<lparr>status := ''running''\<rparr>)) of
           (Inl error, a') \<Rightarrow> Some (task_failed taskId error a')
         | (Inr plan, a') \<Rightarrow>
             (case executePlan e plan tk a' of
                None \<Rightarrow> None
              | Some (Inl error, a'') \<Rightarrow> Some (task_failed taskId error a'')
              | Some (Inr result, a'') \<Rightarrow>
                  Some (Inr result, emit (TaskComplete taskId result) (a''\<lparr>status := ''idle''\<rparr>)))))"

section \<open>The agent as constructed\<close>

text \<open>
  \<^verbatim>\<open>registerWeb3Tools\<close> (lines 87-178) registers the four built-in tools in this
  order; the constructor starts from an empty \<^verbatim>\<open>Map\<close> in status
  \<^verbatim>\<open>idle\<close>.
\<close>

definition builtin_tools :: "env \<Rightarrow> tool list" where
  "builtin_tools e =
     [\<lparr>name = ''contractInteract'',
       description = ''Interact with smart contracts on supported blockchains'',
       handler = Some (Custom (contractInteract e))\<rparr>,
      \<lparr>name = ''tokenSwap'',
       description = ''Swap tokens on decentralized exchanges'',
       handler = Some (Custom (tokenSwap e))\<rparr>,
      \<lparr>name = ''ipfsStore'',
       description = ''Store data on IPFS'',
       handler = Some IpfsStore\<rparr>,
      \<lparr>name = ''nftCreate'',
       description = ''Create an NFT on supported blockchains'',
       handler = Some NftCreate\<rparr>]"

fun registerAll :: "tool list \<Rightarrow> agent \<Rightarrow> jsval + agent" where
  "registerAll [] a = Inr a"
| "registerAll (t # ts) a =
     (case registerTool t a of Inl err \<Rightarrow> Inl err | Inr a' \<Rightarrow> registerAll ts a')"

definition registerWeb3Tools :: "env \<Rightarrow> agent \<Rightarrow> jsval + agent" where
  "registerWeb3Tools e a = registerAll (builtin_tools e) a"

definition new_agent :: "env \<Rightarrow> jsval + agent" where
  "new_agent e =
     registerWeb3Tools e
       \<lparr>status = ''idle'', tools = [], networks = [''ethereum''],
        reasoning_model = ''gpt-4'', execution_model = ''gpt-3.5-turbo'', trace = []\<rparr>"

section \<open>Concrete scenarios\<close>

text \<open>
  A reasoning service that answers the planning request with \<open>planContent\<close>, which
  \<^verbatim>\<open>JSON.parse\<close> reads as \<open>parsed\<close>, and every other request with a fixed text;
  a storage backend that is unreachable; a caller's tool whose handler always throws an
  \<^verbatim>\<open>Error\<close>, and one whose handler is \<^verbatim>\<open>() => Promise.reject()\<close>, a
  rejection that carries \<^verbatim>\<open>undefined\<close>.
\<close>

definition demo_env :: "jsval \<Rightarrow> outcome \<Rightarrow> env" where
  "demo_env planContent parsed =
     \<lparr>chat = (\<lambda>tr req. case prompt req of
                PlanningPrompt obj names nets \<Rightarrow> Inr [planContent]
              | ReasoningPrompt d prior \<Rightarrow> Inr [JStr ''reasoned'']
              | ReportPrompt obj rs \<Rightarrow> Inr [JStr ''all done'']),
      json_parse = (\<lambda>v. if v = planContent then parsed
                         else Inl (JError ''SyntaxError'' ''Unexpected token'')),
      ipfs_add = (\<lambda>c. Inl (JError ''Error'' ''ipfs unreachable'')),
      random_tokenId = 42,
      random_txHash = ''0xabc'',
      contractInteract = (\<lambda>p. Inr (soft_failure (JStr ''Network undefined not supported''))),
      tokenSwap = (\<lambda>p. Inr (JObj [(''success'', JBool True)]))\<rparr>"

definition boom_tool :: tool where
  "boom_tool =
     \<lparr>name = ''boom'', description = ''always throws an Error'',
      handler = Some (Custom (\<lambda>p. Inl (JError ''Error'' ''kaboom'')))\<rparr>"

definition reject_tool :: tool where
  "reject_tool =
     \<lparr>name = ''reject'', description = ''rejects without a reason'',
      handler = Some (Custom (\<lambda>p. Inl JUndefined))\<rparr>"

definition demo_agent :: "env \<Rightarrow> agent" where
  "demo_agent e =
     \<lparr>status = ''idle'',
      tools = map (\<lambda>t. (name t, t)) (builtin_tools e @ [boom_tool, reject_tool]),
      networks = [''ethereum''],
      reasoning_model = ''gpt-4'', execution_model = ''gpt-3.5-turbo'', trace = []\<rparr>"

definition demo_task :: task where
  "demo_task = \<lparr>objective = JStr ''mint a token'', walletAddress = JStr ''0x01''\<rparr>"

text \<open>The planning request of the scenarios.\<close>

definition demo_planning :: effect where
  "demo_planning =
     LlmCall \<lparr>model = ''gpt-4'',
              prompt = PlanningPrompt (JStr ''mint a token'')
                         [''contractInteract'', ''tokenSwap'', ''ipfsStore'', ''nftCreate'',
                          ''boom'', ''reject'']
                         [''ethereum''],
              json_object = True\<rparr>"

text \<open>A two-step plan: a tool that throws an \<^verbatim>\<open>Error\<close>, then a reasoning step.\<close>

definition two_step_plan :: "jsval list" where
  "two_step_plan =
     [JObj [(''id'', JStr ''s1''), (''tool'', JStr ''boom'')],
      JObj [(''id'', JStr ''s2''), (''description'', JStr ''wrap up'')]]"

definition two_step_env :: env where
  \<open>two_step_env =
     demo_env
       (JStr ''{"steps":[{"id":"s1","tool":"boom"},{"id":"s2","description":"wrap up"}]}'')
       (Inr (JObj [(''steps'', JArr two_step_plan)]))\<close>

text \<open>A two-step plan of reasoning steps whose first step has the id \<^verbatim>\<open>__proto__\<close>.\<close>

definition proto_plan :: "jsval list" where
  "proto_plan =
     [JObj [(''id'', JStr ''__proto__''), (''description'', JStr ''look up'')],
      JObj [(''id'', JStr ''s2''), (''description'', JStr ''conclude'')]]"

definition proto_env :: env where
  \<open>proto_env =
     demo_env
       (JStr ''{"steps":[{"id":"__proto__","description":"look up"},{"id":"s2","description":"conclude"}]}'')
       (Inr (JObj [(''steps'', JArr proto_plan)]))\<close>

text \<open>A one-step plan that mints, and so stores metadata first.\<close>

definition mint_plan :: "jsval list" where
  "mint_plan =
     [JObj [(''id'', JStr ''s1''), (''tool'', JStr ''nftCreate''),
            (''parameters'', JObj [(''metadata'', JObj [(''name'', JStr ''token'')])])]]"

definition mint_env :: env where
  \<open>mint_env =
     demo_env
       (JStr ''{"steps":[{"id":"s1","tool":"nftCreate","parameters":{"metadata":{"name":"token"}}}]}'')
       (Inr (JObj [(''steps'', JArr mint_plan)]))\<close>

text \<open>A response that is not JSON, and a JSON object that has no \<^verbatim>\<open>steps\<close>.\<close>

definition malformed_env :: env where
  "malformed_env =
     demo_env (JStr ''Here is your plan: first, ...'')
       (Inl (JError ''SyntaxError'' ''Unexpected token H in JSON at position 0''))"

definition no_steps_env :: env where
  \<open>no_steps_env = demo_env (JStr ''{"plan":[]}'') (Inr (JObj [(''plan'', JArr [])]))\<close>

section \<open>Auxiliary facts\<close>

lemma executeTool_registered:
  "tools_get ts toolName = Some tool \<Longrightarrow>
   executeTool e ts toolName parameters =
     Option.bind (callHandler e (executeTool e ts) (handler tool) parameters)
       (\<lambda>r. Some (case r of Inl error \<Rightarrow> catch_soft error | Inr v \<Rightarrow> Inr v))"
  by (subst executeTool.simps) simp

lemma executeTool_unregistered:
  "tools_get ts toolName = None \<Longrightarrow>
   executeTool e ts toolName parameters =
     Some (Inl (JError ''Error'' (''Tool not found: '' @ toolName)))"
  by (subst executeTool.simps) simp

text \<open>
  The option in the result of \<^verbatim>\<open>executeTool\<close> is not idle: when the name
  \<^verbatim>\<open>ipfsStore\<close> is bound to the mint handler, the handler calls itself through
  \<^verbatim>\<open>executeTool\<close> for ever, and the call returns nothing.
\<close>

lemma executeTool_mint_as_storage_never_returns_aux:
  assumes "executeTool e ts n p = Some r"
      and "ts = [(''ipfsStore'',
                  \<lparr>name = ''ipfsStore'', description = d, handler = Some NftCreate\<rparr>)]"
      and "n = ''ipfsStore''"
      and "\<exists>kvs. p = JObj kvs"
  shows False
  using assms
proof (induction e ts n p r rule: executeTool.raw_induct [rotated 1, consumes 1, case_names call])
  case (call exec e ts toolName parameters y)
  from call.prems obtain kvs where p: "parameters = JObj kvs"
    by blast
  obtain metadata where m: "get_prop parameters ''metadata'' = Inr metadata"
    by (simp add: p get_prop_def)
  from call.hyps call.prems
  obtain h where "nftCreate_handler e (exec e ts) parameters = Some h"
    by (auto simp: tools_get_def callHandler_def Option.bind_eq_Some_conv)
  then obtain y' where
    "exec e ts ''ipfsStore'' (JObj [(''content'', metadata), (''type'', JStr ''metadata'')])
       = Some y'"
    by (auto simp: nftCreate_handler_def m Option.bind_eq_Some_conv)
  from call.IH [OF this] call.prems show ?case
    by simp
qed

lemma executeTool_mint_as_storage_never_returns:
  "executeTool e
     [(''ipfsStore'', \<lparr>name = ''ipfsStore'', description = d, handler = Some NftCreate\<rparr>)]
     ''ipfsStore'' (JObj []) = None"
proof (cases "executeTool e
     [(''ipfsStore'', \<lparr>name = ''ipfsStore'', description = d, handler = Some NftCreate\<rparr>)]
     ''ipfsStore'' (JObj [])")
  case None
  then show ?thesis by simp
next
  case (Some r)
  from executeTool_mint_as_storage_never_returns_aux [OF this] show ?thesis
    by simp
qed

lemmas demo_defs =
  demo_env_def demo_agent_def demo_task_def demo_planning_def boom_tool_def reject_tool_def
  builtin_tools_def two_step_plan_def two_step_env_def proto_plan_def proto_env_def
  mint_plan_def mint_env_def malformed_env_def no_steps_env_def

lemmas key_defs =
  obj_put_def array_index_def digit_value_def dec_nat.simps spread_with_def
  assign_def empty_object_def reaches_proto_accessor_def

lemmas run_defs =
  run_def task_failed_def createPlan_def executePlan_def executeStep_def step_failed_def
  executeReasoning_def createFinalReport_def send_def emit_def first_content_def get_prop_def
  iterate_def tools_has_def tools_get_def callHandler_def ipfsStore_handler_def
  nftCreate_handler_def catch_soft_def soft_failure_def

text \<open>
  The agent of the scenarios is the constructed agent with the two callers' tools
  registered.
\<close>

lemma demo_agent_constructed:
  "\<exists>a1 a2. new_agent e = Inr a1 \<and> registerTool boom_tool a1 = Inr a2
           \<and> registerTool reject_tool a2 = Inr (demo_agent e)"
  by (simp add: new_agent_def registerWeb3Tools_def registerTool_def demo_defs)

text \<open>
  Defining a property makes a lookup of its key find the value and leaves the other
  keys as they were.
\<close>

lemma map_of_insert_index:
  "map_of (insert_index n k v kvs) = (map_of kvs)(k \<mapsto> v)" if "map_of kvs k = None"
  using that
proof (induction kvs)
  case Nil
  then show ?case by simp
next
  case (Cons p kvs)
  obtain k' v' where p: "p = (k', v')"
    by (cases p)
  from Cons.prems p have "k' \<noteq> k" and "map_of kvs k = None"
    by (auto split: if_splits)
  then show ?case
    using Cons.IH by (auto simp: p split: option.split)
qed

lemma map_of_obj_put: "map_of (obj_put k v kvs) = (map_of kvs)(k \<mapsto> v)"
proof (cases "map_of kvs k")
  case None
  then have "[k \<mapsto> v] ++ map_of kvs = (map_of kvs)(k \<mapsto> v)"
    by (intro ext) (simp add: map_add_def split: option.split)
  with None show ?thesis
    by (simp add: obj_put_def map_of_insert_index split: option.split)
next
  case (Some x)
  then show ?thesis
    by (simp add: obj_put_def update_conv')
qed

text \<open>
  An assignment under a key other than \<^verbatim>\<open>__proto__\<close> stores the value under that
  key.
\<close>

lemma assign_ordinary_key:
  "k \<noteq> ''__proto__'' \<Longrightarrow> map_of (own (assign k v obj)) = (map_of (own obj))(k \<mapsto> v)"
  by (simp add: assign_def map_of_obj_put)





section \<open>Claims about the tool registry and tool execution\<close>

text \<open>
  What the \<^verbatim>\<open>catch\<close> block of \<^verbatim>\<open>executeTool\<close> does for a thrown value that
  has a message to read, that is, any value but \<^verbatim>\<open>undefined\<close> and
  \<^verbatim>\<open>null\<close>: the exception becomes the soft failure.
\<close>

lemma executeTool_catches_thrown_with_message:
  assumes "tools_get ts toolName = Some tool"
      and "callHandler e (executeTool e ts) (handler tool) parameters = Some (Inl thrown)"
      and "get_prop thrown ''message'' = Inr m"
  shows "executeTool e ts toolName parameters = Some (Inr (soft_failure m))"
  using assms by (simp add: executeTool_registered catch_soft_def)

text \<open>
  C3 says that whatever a registered tool's handler throws, \<^verbatim>\<open>executeTool\<close>
  returns \<^verbatim>\<open>{success: false, error: <message>}\<close> and the exception never
  propagates. At the registered tool \<^verbatim>\<open>reject\<close>, whose handler is
  \<^verbatim>\<open>() => Promise.reject()\<close>, the \<^verbatim>\<open>catch\<close> block of line 222 reads
  \<^verbatim>\<open>error.message\<close> of \<^verbatim>\<open>undefined\<close>: \<^verbatim>\<open>executeTool\<close> returns no
  soft failure and throws a \<^verbatim>\<open>TypeError\<close>.
\<close>

theorem executeTool_rejection_without_reason_escapes:
  "tools_get (tools (demo_agent two_step_env)) ''reject'' = Some reject_tool
   \<and> callHandler two_step_env (executeTool two_step_env (tools (demo_agent two_step_env)))
        (handler reject_tool) (JObj []) = Some (Inl JUndefined)
   \<and> executeTool two_step_env (tools (demo_agent two_step_env)) ''reject'' (JObj [])
        = Some (Inl (JError ''TypeError''
                      ''Cannot read properties of undefined (reading message)''))"
  by (simp add: executeTool_registered tools_get_def callHandler_def catch_soft_def
        get_prop_def demo_defs)

text \<open>
  C5, as the specification states it: an unregistered name fails with an error of a
  class of its own, \<^verbatim>\<open>ToolNotFoundError\<close>, never a generic error. The source has
  no error classes: line 216 throws a plain \<^verbatim>\<open>Error\<close>. On the empty registry
  the name \<^verbatim>\<open>missingTool\<close> gives that generic error, and not one named
  \<^verbatim>\<open>ToolNotFoundError\<close>.
\<close>

theorem executeTool_unregistered_is_generic_error:
  "executeTool two_step_env [] ''missingTool'' (JObj [])
     = Some (Inl (JError ''Error'' ''Tool not found: missingTool''))
   \<and> executeTool two_step_env [] ''missingTool'' (JObj [])
     \<noteq> Some (Inl (JError ''ToolNotFoundError'' ''Tool not found: missingTool''))"
  by (simp add: executeTool_unregistered tools_get_def)

text \<open>
  C5, amended: for every name that is not in the registry and every parameters object,
  \<^verbatim>\<open>executeTool\<close> throws (a hard error, not a returned soft failure) a generic
  \<^verbatim>\<open>Error\<close> whose message is \<^verbatim>\<open>Tool not found: <name>\<close>.
\<close>

theorem executeTool_unregistered_throws:
  assumes "tools_get ts toolName = None"
  shows "executeTool e ts toolName parameters
           = Some (Inl (JError ''Error'' (''Tool not found: '' @ toolName)))"
  using assms by (rule executeTool_unregistered)

theorem executeTool_unregistered_throws_witness:
  "tools_get (tools (demo_agent mint_env)) ''walletConnect'' = None
   \<and> executeTool mint_env (tools (demo_agent mint_env)) ''walletConnect'' (JObj [])
       = Some (Inl (JError ''Error'' ''Tool not found: walletConnect''))"
proof -
  have unregistered: "tools_get (tools (demo_agent mint_env)) ''walletConnect'' = None"
    by (simp add: tools_get_def demo_defs)
  show ?thesis
    using executeTool_unregistered_throws [OF unregistered, of mint_env "JObj []"] unregistered
    by simp
qed

text \<open>
  C8. For every parameters object, when the mint tool calls the storage tool and the
  storage call returns a result with \<^verbatim>\<open>success: false\<close>, the mint tool returns
  that very result, unchanged and unwrapped, and so does \<^verbatim>\<open>executeTool\<close> on
  the mint tool.
\<close>

theorem nftCreate_propagates_storage_failure:
  assumes "tools_get ts ''nftCreate'' = Some tool"
      and "handler tool = Some NftCreate"
      and "get_prop params ''metadata'' = Inr metadata"
      and "executeTool e ts ''ipfsStore''
             (JObj [(''content'', metadata), (''type'', JStr ''metadata'')]) = Some (Inr ipfsResult)"
      and "get_prop ipfsResult ''success'' = Inr (JBool False)"
  shows "nftCreate_handler e (executeTool e ts) params = Some (Inr ipfsResult)
         \<and> executeTool e ts ''nftCreate'' params = Some (Inr ipfsResult)"
proof -
  have mint: "nftCreate_handler e (executeTool e ts) params = Some (Inr ipfsResult)"
    using assms(3-5) by (simp add: nftCreate_handler_def)
  then have "callHandler e (executeTool e ts) (handler tool) params = Some (Inr ipfsResult)"
    using assms(2) by (simp add: callHandler_def)
  then have "executeTool e ts ''nftCreate'' params = Some (Inr ipfsResult)"
    using assms(1) by (simp add: executeTool_registered)
  with mint show ?thesis by simp
qed

theorem nftCreate_propagates_storage_failure_witness:
  "executeTool mint_env (tools (demo_agent mint_env)) ''ipfsStore''
       (JObj [(''content'', JObj [(''name'', JStr ''token'')]), (''type'', JStr ''metadata'')])
     = Some (Inr (JObj [(''success'', JBool False), (''error'', JStr ''ipfs unreachable'')]))
   \<and> executeTool mint_env (tools (demo_agent mint_env)) ''nftCreate''
       (JObj [(''metadata'', JObj [(''name'', JStr ''token'')])])
     = Some (Inr (JObj [(''success'', JBool False), (''error'', JStr ''ipfs unreachable'')]))"
proof -
  let ?ts = "tools (demo_agent mint_env)"
  let ?failure = "JObj [(''success'', JBool False), (''error'', JStr ''ipfs unreachable'')]"
  have mint: "tools_get ?ts ''nftCreate'' = Some \<lparr>name = ''nftCreate'',
       description = ''Create an NFT on supported blockchains'', handler = Some NftCreate\<rparr>"
    by (simp add: tools_get_def demo_defs)
  have store: "tools_get ?ts ''ipfsStore'' = Some \<lparr>name = ''ipfsStore'',
       description = ''Store data on IPFS'', handler = Some IpfsStore\<rparr>"
    by (simp add: tools_get_def demo_defs)
  have stored: "executeTool mint_env ?ts ''ipfsStore''
       (JObj [(''content'', JObj [(''name'', JStr ''token'')]), (''type'', JStr ''metadata'')])
     = Some (Inr ?failure)"
    by (subst executeTool_registered [OF store])
       (simp add: callHandler_def ipfsStore_handler_def get_prop_def catch_soft_def
          soft_failure_def mint_env_def demo_env_def)
  have failed: "get_prop ?failure ''success'' = Inr (JBool False)"
    by (simp add: get_prop_def)
  have meta: "get_prop (JObj [(''metadata'', JObj [(''name'', JStr ''token'')])]) ''metadata''
      = Inr (JObj [(''name'', JStr ''token'')])"
    by (simp add: get_prop_def)
  show ?thesis
    using nftCreate_propagates_storage_failure [OF mint _ meta stored failed] stored
    by simp
qed

text \<open>
  C9. For every two tool definitions with the same name (each with a name and a handler,
  as \<^verbatim>\<open>registerTool\<close> requires), registering the first and then the second
  raises no error, and a get of that name returns the second.
\<close>

theorem registerTool_last_write_wins:
  assumes "name t1 \<noteq> []" and "handler t1 \<noteq> None" and "handler t2 \<noteq> None"
      and "name t2 = name t1"
  shows "\<exists>a1 a2. registerTool t1 a = Inr a1 \<and> registerTool t2 a1 = Inr a2
           \<and> tools_get (tools a2) (name t1) = Some t2"
  using assms by (simp add: registerTool_def tools_get_def update_conv')

theorem registerTool_last_write_wins_witness:
  "name boom_tool \<noteq> [] \<and> handler boom_tool \<noteq> None
   \<and> handler (boom_tool\<lparr>handler := Some IpfsStore\<rparr>) \<noteq> None
   \<and> (\<exists>a1 a2. registerTool boom_tool (demo_agent mint_env) = Inr a1
          \<and> registerTool (boom_tool\<lparr>handler := Some IpfsStore\<rparr>) a1 = Inr a2
          \<and> tools_get (tools a2) ''boom'' = Some (boom_tool\<lparr>handler := Some IpfsStore\<rparr>))"
proof -
  have valid: "name boom_tool \<noteq> []" "handler boom_tool \<noteq> None"
    "handler (boom_tool\<lparr>handler := Some IpfsStore\<rparr>) \<noteq> None"
    "name (boom_tool\<lparr>handler := Some IpfsStore\<rparr>) = name boom_tool"
    by (simp_all add: boom_tool_def)
  have "name boom_tool = ''boom''"
    by (simp add: boom_tool_def)
  with registerTool_last_write_wins [OF valid, of "demo_agent mint_env"] valid
  show ?thesis
    by simp
qed

section \<open>Claims about the run of a task\<close>

text \<open>
  C7. For every agent whose status is not \<^verbatim>\<open>idle\<close>, \<^verbatim>\<open>run(task)\<close>
  fails at once with the busy error (the source's
  \<^verbatim>\<open>Error('Agent is already running a task')\<close>) and leaves the agent as it was:
  the same status, no event emitted, no request sent, no step executed.
\<close>

theorem run_rejected_while_busy:
  assumes "status a \<noteq> ''idle''"
  shows "run e taskId tk a
           = Some (Inl (JError ''Error'' ''Agent is already running a task''), a)"
  using assms by (simp add: run_def)

theorem run_rejected_while_busy_witness:
  "status ((demo_agent mint_env)\<lparr>status := ''running''\<rparr>) \<noteq> ''idle''
   \<and> run mint_env ''task-2'' demo_task ((demo_agent mint_env)\<lparr>status := ''running''\<rparr>)
       = Some (Inl (JError ''Error'' ''Agent is already running a task''),
               (demo_agent mint_env)\<lparr>status := ''running''\<rparr>)"
proof -
  have busy: "status ((demo_agent mint_env)\<lparr>status := ''running''\<rparr>) \<noteq> ''idle''"
    by simp
  show ?thesis
    using run_rejected_while_busy [OF busy, of mint_env "''task-2''" demo_task] busy
    by simp
qed




text \<open>
  C10. For every task and every plan whose steps all complete without a thrown
  exception, \<^verbatim>\<open>run\<close> completes; the only error it can raise is that of the
  summary request, as the \<^verbatim>\<open>catch\<close> block of \<^verbatim>\<open>run\<close> rethrows it, and a
  TaskResult it returns has \<^verbatim>\<open>success: true\<close> and the full results map,
  whatever \<^verbatim>\<open>success\<close> the step results carry.
\<close>

theorem run_success_ignores_soft_failures:
  assumes "status a = ''idle''"
      and "createPlan e tk (emit (TaskStart taskId (objective tk)) (a\<lparr>status := ''running''\<rparr>))
             = (Inr plan, a1)"
      and "iterate plan = Inr steps"
      and "executeSteps e tk empty_object steps a1 = Some (Inr results, a2)"
  shows "case run e taskId tk a of
           None \<Rightarrow> False
         | Some (Inl error, a') \<Rightarrow>
             (case createFinalReport e tk results a2 of
                (Inl thrown, a3) \<Rightarrow> fst (task_failed taskId thrown a3) = Inl error
              | (Inr report, a3) \<Rightarrow> False)
         | Some (Inr result, a') \<Rightarrow>
             get_prop result ''success'' = Inr (JBool True)
             \<and> get_prop result ''results'' = Inr (JObj (own results))"
proof (cases "createFinalReport e tk results a2")
  case (Pair reported a3)
  show ?thesis
  proof (cases reported)
    case (Inl thrown)
    have "fst (task_failed taskId thrown a3) \<noteq> Inr report" for report
      by (simp add: task_failed_def split: sum.split)
    with Inl Pair assms show ?thesis
      by (cases "task_failed taskId thrown a3"; cases "fst (task_failed taskId thrown a3)")
         (auto simp: run_def executePlan_def)
  next
    case (Inr report)
    with Pair have "get_prop report ''success'' = Inr (JBool True)
        \<and> get_prop report ''results'' = Inr (JObj (own results))"
      by (auto simp: createFinalReport_def get_prop_def split: prod.splits sum.splits)
    with Pair Inr assms show ?thesis
      by (simp add: run_def executePlan_def)
  qed
qed

lemma mint_plan_created:
  "createPlan mint_env demo_task
     (emit (TaskStart ''task-4'' (objective demo_task)) ((demo_agent mint_env)\<lparr>status := ''running''\<rparr>))
   = (Inr (JArr mint_plan),
      (demo_agent mint_env)
        \<lparr>status := ''running'',
         trace := [Emitted (TaskStart ''task-4'' (JStr ''mint a token'')), demo_planning]\<rparr>)"
  by (simp add: createPlan_def send_def emit_def first_content_def get_prop_def
        mint_env_def demo_env_def demo_agent_def demo_task_def demo_planning_def
        builtin_tools_def boom_tool_def reject_tool_def)

lemma run_mint_returns:
  "\<exists>result a'. run mint_env ''task-4'' demo_task (demo_agent mint_env) = Some (Inr result, a')"
  by (simp add: run_defs key_defs executeTool_registered demo_defs)

lemma mint_steps_executed:
  "executeSteps mint_env demo_task empty_object mint_plan
     ((demo_agent mint_env)
        \<lparr>status := ''running'',
         trace := [Emitted (TaskStart ''task-4'' (JStr ''mint a token'')), demo_planning]\<rparr>)
   = Some (Inr \<lparr>own = [(''s1'', JObj [(''success'', JBool False),
                                        (''error'', JStr ''ipfs unreachable'')])],
                proto = ObjectPrototype\<rparr>,
      (demo_agent mint_env)
        \<lparr>status := ''running'',
         trace := [Emitted (TaskStart ''task-4'' (JStr ''mint a token'')),
                   demo_planning,
                   Emitted (StepStart (hd mint_plan)),
                   Emitted (StepComplete (hd mint_plan)
                     (JObj [(''success'', JBool False), (''error'', JStr ''ipfs unreachable'')]))]\<rparr>)"
  by (simp add: run_defs key_defs executeTool_registered demo_defs)

theorem run_success_ignores_soft_failures_witness:
  "status (demo_agent mint_env) = ''idle''
   \<and> iterate (JArr mint_plan) = Inr mint_plan
   \<and> (\<exists>result a'. run mint_env ''task-4'' demo_task (demo_agent mint_env) = Some (Inr result, a')
          \<and> get_prop result ''success'' = Inr (JBool True)
          \<and> get_prop result ''results''
              = Inr (JObj [(''s1'', JObj [(''success'', JBool False),
                                          (''error'', JStr ''ipfs unreachable'')])]))"
proof -
  have idle: "status (demo_agent mint_env) = ''idle''"
    by (simp add: demo_agent_def)
  have it: "iterate (JArr mint_plan) = Inr mint_plan"
    by (simp add: iterate_def)
  from run_mint_returns obtain result a' where
    ran: "run mint_env ''task-4'' demo_task (demo_agent mint_env) = Some (Inr result, a')"
    by blast
  from run_success_ignores_soft_failures [OF idle mint_plan_created it mint_steps_executed]
  have "get_prop result ''success'' = Inr (JBool True)
        \<and> get_prop result ''results''
            = Inr (JObj [(''s1'', JObj [(''success'', JBool False),
                                        (''error'', JStr ''ipfs unreachable'')])])"
    by (simp add: ran)
  with idle it ran show ?thesis
    by blast
qed

section \<open>Claims about planning\<close>

text \<open>
  C2 says that \<^verbatim>\<open>createPlan\<close> fails with a plan-generation error both for a
  malformed response and for a parsed object without \<^verbatim>\<open>steps\<close>. The first
  half holds: the \<^verbatim>\<open>SyntaxError\<close> of \<^verbatim>\<open>JSON.parse\<close> is rethrown as
  \<^verbatim>\<open>Failed to create plan: ...\<close>.
\<close>

lemma createPlan_malformed_response:
  assumes "send e \<lparr>model = reasoning_model a,
                    prompt = PlanningPrompt (objective tk) (map fst (tools a)) (networks a),
                    json_object = True\<rparr> a = (Inr (planContent # others), a')"
      and "json_parse e planContent = Inl (JError ''SyntaxError'' m)"
  shows "createPlan e tk a = (Inl (JError ''Error'' (''Failed to create plan: '' @ m)), a')"
  using assms by (simp add: createPlan_def first_content_def get_prop_def)

text \<open>
  The second half does not: for a JSON object without \<^verbatim>\<open>steps\<close>,
  \<^verbatim>\<open>JSON.parse(planContent).steps\<close> is \<^verbatim>\<open>undefined\<close> and
  \<^verbatim>\<open>createPlan\<close> returns it.
\<close>

lemma createPlan_object_without_steps:
  assumes "send e \<lparr>model = reasoning_model a,
                    prompt = PlanningPrompt (objective tk) (map fst (tools a)) (networks a),
                    json_object = True\<rparr> a = (Inr (planContent # others), a')"
      and "json_parse e planContent = Inr (JObj kvs)"
      and "map_of kvs ''steps'' = None"
  shows "createPlan e tk a = (Inr JUndefined, a')"
  using assms by (simp add: createPlan_def first_content_def get_prop_def)

text \<open>
  C2 at the response \<^verbatim>\<open>{"plan":[]}\<close>: \<^verbatim>\<open>createPlan\<close> raises nothing and
  returns \<^verbatim>\<open>undefined\<close>; the run then fails inside \<^verbatim>\<open>executePlan\<close>, with
  the \<^verbatim>\<open>TypeError\<close> of iterating \<^verbatim>\<open>undefined\<close>, and reports that
  message in \<^verbatim>\<open>taskFailed\<close>.
\<close>

theorem createPlan_missing_steps_returns_undefined:
  "fst (createPlan no_steps_env demo_task (demo_agent no_steps_env)) = Inr JUndefined
   \<and> run no_steps_env ''task-5'' demo_task (demo_agent no_steps_env)
     = Some (Inl (JError ''TypeError'' ''plan is not iterable''),
             (demo_agent no_steps_env)
               \<lparr>trace :=
                  [Emitted (TaskStart ''task-5'' (JStr ''mint a token'')),
                   demo_planning,
                   Emitted (TaskFailed ''task-5'' (JStr ''plan is not iterable''))]\<rparr>)"
  by (simp add: run_defs demo_defs)

section \<open>Claims about the execution of a plan\<close>

text \<open>
  C1 says that for every plan the \<^verbatim>\<open>priorResults\<close> passed to the reasoning
  fallback at step \<open>k\<close> hold the results of the steps \<open>1..k-1\<close>, each stored under its
  step's id before the next step begins. On the plan \<open>proto_plan\<close>, two reasoning
  steps of which the first has the id \<^verbatim>\<open>__proto__\<close>, the steps run in plan
  order, but line 320, \<^verbatim>\<open>results[step.id] = stepResult\<close>, stores nothing for
  step 1: the assignment replaces the prototype of \<^verbatim>\<open>results\<close>. The reasoning
  request of step 2 carries an empty \<^verbatim>\<open>priorResults\<close>, and the results of the
  report hold the entry of \<^verbatim>\<open>s2\<close> only.
\<close>

theorem executePlan_loses_result_of_proto_id:
  "iterate (JArr proto_plan) = Inr proto_plan
   \<and> executePlan proto_env (JArr proto_plan) demo_task (demo_agent proto_env)
   = Some (Inr (JObj [(''success'', JBool True),
                      (''objective'', JStr ''mint a token''),
                      (''summary'', JStr ''all done''),
                      (''results'',
                       JObj [(''s2'', JObj [(''success'', JBool True),
                                            (''reasoning'', JStr ''reasoned'')])])]),
      (demo_agent proto_env)
        \<lparr>trace :=
           [Emitted (StepStart (JObj [(''id'', JStr ''__proto__''),
                                      (''description'', JStr ''look up'')])),
            LlmCall \<lparr>model = ''gpt-3.5-turbo'',
                     prompt = ReasoningPrompt (JStr ''look up'') (JObj []),
                     json_object = False\<rparr>,
            Emitted (StepComplete (JObj [(''id'', JStr ''__proto__''),
                                         (''description'', JStr ''look up'')])
              (JObj [(''success'', JBool True), (''reasoning'', JStr ''reasoned'')])),
            Emitted (StepStart (JObj [(''id'', JStr ''s2''), (''description'', JStr ''conclude'')])),
            LlmCall \<lparr>model = ''gpt-3.5-turbo'',
                     prompt = ReasoningPrompt (JStr ''conclude'') (JObj []),
                     json_object = False\<rparr>,
            Emitted (StepComplete (JObj [(''id'', JStr ''s2''), (''description'', JStr ''conclude'')])
              (JObj [(''success'', JBool True), (''reasoning'', JStr ''reasoned'')])),
            LlmCall \<lparr>model = ''gpt-3.5-turbo'',
                     prompt = ReportPrompt (JStr ''mint a token'')
                       (JObj [(''s2'', JObj [(''success'', JBool True),
                                             (''reasoning'', JStr ''reasoned'')])]),
                     json_object = False\<rparr>]\<rparr>)"
  by (simp add: run_defs key_defs demo_defs)




end
